theory Spec2Isabelle
  imports Main "HOL-Library.Word"
begin

section \<open>Values of the input package\<close>

text \<open>
  The file \<^verbatim>\<open>input/mocks.go\<close> holds three test doubles, \<^verbatim>\<open>MockInput\<close>,
  \<^verbatim>\<open>MockWitnessType\<close> and \<^verbatim>\<open>MockInputSigner\<close>. Each embeds testify's
  \<^verbatim>\<open>mock.Mock\<close>; every method hands its arguments to \<^verbatim>\<open>m.Called\<close> and converts the
  \<^verbatim>\<open>mock.Arguments\<close> that come back into its own result types.

  The types the methods mention are declared in other files (btcd's \<^verbatim>\<open>wire\<close>, the
  package's own \<^verbatim>\<open>SignDescriptor\<close>, \<^verbatim>\<open>Script\<close>, ...). Only what the methods of
  this file look at is kept of them; objects the methods merely pass on are identified
  by a number.
\<close>

type_synonym bytes = "8 word list"

text \<open>\<^verbatim>\<open>wire.TxOut\<close>: value and public key script.\<close>

record TxOut =
  Value :: "64 word"
  PkScript :: bytes

text \<open>\<^verbatim>\<open>wire.MsgTx\<close>, without its inputs, which no method of the file reads.\<close>

record MsgTx =
  Version :: "32 word"
  TxOuts :: "TxOut list"
  LockTime :: "32 word"

text \<open>\<^verbatim>\<open>input.Script\<close>: the witness stack and the sigScript of one input.\<close>

record Script =
  Witness :: "bytes list"
  SigScript :: bytes

datatype Signer = Signer nat
datatype PrevOutputFetcher = PrevOutputFetcher nat
datatype TxSigHashes = TxSigHashes nat
datatype SignDescriptor = SignDescriptor nat
datatype TxInfo = TxInfo nat
datatype WitnessTypeImpl = WitnessTypeImpl nat
datatype Signature = Signature bytes
datatype PartialSignature = PartialSignature bytes
datatype SchnorrSignature = SchnorrSignature bytes

text \<open>A non-nil value of Go's \<^verbatim>\<open>error\<close> interface; the nil error is \<open>None\<close>.\<close>

datatype error = Err string

text \<open>
  \<^verbatim>\<open>WitnessGenerator\<close> is a function type:
  \<^verbatim>\<open>func(tx *wire.MsgTx, hc *txscript.TxSigHashes, inputIndex int) (*Script, error)\<close>.
  The generator is given the transaction it reads. A value of the function type may be
  the nil function, \<open>None\<close> below.
\<close>

type_synonym WitnessGenerator =
  "MsgTx option \<Rightarrow> TxSigHashes option \<Rightarrow> int \<Rightarrow> Script option \<times> error option"

text \<open>
  A value of type \<^verbatim>\<open>interface{}\<close>, which is what \<^verbatim>\<open>mock.Arguments\<close> holds: either the
  nil interface \<open>VNil\<close>, or a dynamic type together with a value of it. A pointer type
  keeps its own nil (\<open>VScriptPtr None\<close> is \<^verbatim>\<open>(*Script)(nil)\<close>), which is a non-nil
  interface value: \<^verbatim>\<open>x == nil\<close> is false for it. Pointers to transactions are
  addresses into the store of the world below; the other pointers carry their pointee.
  \<open>VOther\<close> stands for a value of any type not listed, named by its type.
\<close>

datatype dyn =
    VNil
  | VBool bool
  | VString string
  | VInt int
  | VUint32 "32 word"
  | VWeightUnit "64 word"
  | VError error
  | VTxOutPtr "TxOut option"
  | VSignDescPtr "SignDescriptor option"
  | VScriptPtr "Script option"
  | VTxInfoPtr "TxInfo option"
  | VWitnessType WitnessTypeImpl
  | VWitnessGenerator "WitnessGenerator option"
  | VSignature Signature
  | VPartialSigPtr "PartialSignature option"
  | VSchnorrSigPtr "SchnorrSignature option"
  | VSigner Signer
  | VPrevOutputFetcher PrevOutputFetcher
  | VMsgTxPtr "nat option"
  | VTxSigHashesPtr "TxSigHashes option"
  | VSessionID bytes
  | VMsg bytes
  | VPubNonces "bytes list"
  | VPartialSigs "PartialSignature option list"
  | VOther string

text \<open>The test \<^verbatim>\<open>x == nil\<close> on an \<^verbatim>\<open>interface{}\<close>.\<close>

fun is_nil :: "dyn \<Rightarrow> bool" where
  "is_nil VNil = True"
| "is_nil _ = False"

text \<open>
  Storing a value of an interface type (\<^verbatim>\<open>Signer\<close>, \<^verbatim>\<open>txscript.PrevOutputFetcher\<close>) into
  an \<^verbatim>\<open>interface{}\<close>: the nil interface stays nil.
\<close>

fun box_Signer :: "Signer option \<Rightarrow> dyn" where
  "box_Signer None = VNil"
| "box_Signer (Some s) = VSigner s"

fun box_PrevOutputFetcher :: "PrevOutputFetcher option \<Rightarrow> dyn" where
  "box_PrevOutputFetcher None = VNil"
| "box_PrevOutputFetcher (Some f) = VPrevOutputFetcher f"

section \<open>Panics and the accessors of mock.Arguments\<close>

text \<open>
  What can abort a method: the dispatcher itself (no expectation matches, or the test
  configured a panic), an accessor of \<^verbatim>\<open>mock.Arguments\<close> (index out of range, or a value
  that is not a bool or not an error), and a failing type assertion \<^verbatim>\<open>x.(T)\<close>.
  Where one return statement holds both an assertion to a pointer type and accessor
  calls (\<^verbatim>\<open>return s.(*Script), args.Error(1)\<close>), the calls are made first and the
  assertion is evaluated when the results are assigned; an assertion to a non-pointer
  type (\<^verbatim>\<open>lntypes.WeightUnit\<close>, \<^verbatim>\<open>Signature\<close>) is evaluated in its place, from left to
  right. The order decides only which of two panics is raised.
\<close>

datatype panic =
    PanicMock string
  | PanicGet nat
  | PanicBool nat
  | PanicError nat
  | PanicTypeAssertion string

definition bindP :: "panic + 'a \<Rightarrow> ('a \<Rightarrow> panic + 'b) \<Rightarrow> panic + 'b" where
  "bindP x f = (case x of Inl p \<Rightarrow> Inl p | Inr a \<Rightarrow> f a)"

text \<open>
  testify's \<^verbatim>\<open>Arguments.Get(index)\<close> panics when \<^verbatim>\<open>index+1 > len(args)\<close>;
  \<^verbatim>\<open>Arguments.Bool(index)\<close> panics unless the value is a bool; \<^verbatim>\<open>Arguments.Error(index)\<close>
  returns nil for a nil value and panics for a value that is not an error.
\<close>

definition Arguments_Get :: "dyn list \<Rightarrow> nat \<Rightarrow> panic + dyn" where
  "Arguments_Get args index =
     (if index + 1 > length args then Inl (PanicGet index) else Inr (args ! index))"

fun bool_of :: "nat \<Rightarrow> dyn \<Rightarrow> panic + bool" where
  "bool_of index (VBool b) = Inr b"
| "bool_of index _ = Inl (PanicBool index)"

definition Arguments_Bool :: "dyn list \<Rightarrow> nat \<Rightarrow> panic + bool" where
  "Arguments_Bool args index = bindP (Arguments_Get args index) (bool_of index)"

fun error_of :: "nat \<Rightarrow> dyn \<Rightarrow> panic + error option" where
  "error_of index VNil = Inr None"
| "error_of index (VError e) = Inr (Some e)"
| "error_of index _ = Inl (PanicError index)"

definition Arguments_Error :: "dyn list \<Rightarrow> nat \<Rightarrow> panic + error option" where
  "Arguments_Error args index = bindP (Arguments_Get args index) (error_of index)"

text \<open>
  The type assertions \<^verbatim>\<open>x.(T)\<close> of the file. Each panics on a value of another dynamic
  type, the nil interface included. An assertion to an interface type (\<^verbatim>\<open>WitnessType\<close>,
  \<^verbatim>\<open>Signature\<close>) yields a non-nil interface value.
\<close>

fun assert_TxOutPtr :: "dyn \<Rightarrow> panic + TxOut option" where
  "assert_TxOutPtr (VTxOutPtr p) = Inr p"
| "assert_TxOutPtr _ = Inl (PanicTypeAssertion ''*wire.TxOut'')"

fun assert_WitnessType :: "dyn \<Rightarrow> panic + WitnessTypeImpl option" where
  "assert_WitnessType (VWitnessType t) = Inr (Some t)"
| "assert_WitnessType _ = Inl (PanicTypeAssertion ''WitnessType'')"

fun assert_SignDescPtr :: "dyn \<Rightarrow> panic + SignDescriptor option" where
  "assert_SignDescPtr (VSignDescPtr p) = Inr p"
| "assert_SignDescPtr _ = Inl (PanicTypeAssertion ''*SignDescriptor'')"

fun assert_ScriptPtr :: "dyn \<Rightarrow> panic + Script option" where
  "assert_ScriptPtr (VScriptPtr p) = Inr p"
| "assert_ScriptPtr _ = Inl (PanicTypeAssertion ''*Script'')"

fun assert_TxInfoPtr :: "dyn \<Rightarrow> panic + TxInfo option" where
  "assert_TxInfoPtr (VTxInfoPtr p) = Inr p"
| "assert_TxInfoPtr _ = Inl (PanicTypeAssertion ''*TxInfo'')"

fun assert_WitnessGenerator :: "dyn \<Rightarrow> panic + WitnessGenerator option" where
  "assert_WitnessGenerator (VWitnessGenerator g) = Inr g"
| "assert_WitnessGenerator _ = Inl (PanicTypeAssertion ''WitnessGenerator'')"

fun assert_WeightUnit :: "dyn \<Rightarrow> panic + 64 word" where
  "assert_WeightUnit (VWeightUnit n) = Inr n"
| "assert_WeightUnit _ = Inl (PanicTypeAssertion ''lntypes.WeightUnit'')"

fun assert_Signature :: "dyn \<Rightarrow> panic + Signature option" where
  "assert_Signature (VSignature s) = Inr (Some s)"
| "assert_Signature _ = Inl (PanicTypeAssertion ''Signature'')"

fun assert_PartialSigPtr :: "dyn \<Rightarrow> panic + PartialSignature option" where
  "assert_PartialSigPtr (VPartialSigPtr p) = Inr p"
| "assert_PartialSigPtr _ = Inl (PanicTypeAssertion ''*musig2.PartialSignature'')"

fun assert_SchnorrSigPtr :: "dyn \<Rightarrow> panic + SchnorrSignature option" where
  "assert_SchnorrSigPtr (VSchnorrSigPtr p) = Inr p"
| "assert_SchnorrSigPtr _ = Inl (PanicTypeAssertion ''*schnorr.Signature'')"

section \<open>The world and the dispatcher\<close>

text \<open>
  Everything a call can change: the state \<open>mock\<close> of the receiver's \<^verbatim>\<open>mock.Mock\<close>
  (its expectations and its record of calls) and the store \<open>txs\<close> that transaction
  pointers point into.

  \<^verbatim>\<open>m.Called\<close> is testify's, not this repository's, so it is a parameter of every
  method: given the world, the name of the calling method and the arguments, it yields
  the configured return values or panics, and a new world. Nothing is assumed of it.
\<close>

record 'm world =
  mock :: 'm
  txs :: "nat \<rightharpoonup> MsgTx"

type_synonym 'm Called =
  "'m world \<Rightarrow> string \<Rightarrow> dyn list \<Rightarrow> (panic + dyn list) \<times> 'm world"

text \<open>The rest of a method body, run on what the dispatcher returned.\<close>

definition on_return ::
  "(panic + dyn list) \<times> 'w \<Rightarrow> (dyn list \<Rightarrow> panic + 'a) \<Rightarrow> (panic + 'a) \<times> 'w" where
  "on_return r body = (bindP (fst r) body, snd r)"

section \<open>MockInput\<close>

definition RequiredTxOut :: "'m Called \<Rightarrow> 'm world \<Rightarrow> (panic + TxOut option) \<times> 'm world" where
  "RequiredTxOut Called w =
     on_return (Called w ''RequiredTxOut'' []) (\<lambda>args.
       bindP (Arguments_Get args 0) (\<lambda>txOut.
         if is_nil txOut then Inr None
         else assert_TxOutPtr txOut))"

definition WitnessType ::
  "'m Called \<Rightarrow> 'm world \<Rightarrow> (panic + WitnessTypeImpl option) \<times> 'm world" where
  "WitnessType Called w =
     on_return (Called w ''WitnessType'' []) (\<lambda>args.
       bindP (Arguments_Get args 0) (\<lambda>wt.
         if is_nil wt then Inr None
         else assert_WitnessType wt))"

definition SignDesc ::
  "'m Called \<Rightarrow> 'm world \<Rightarrow> (panic + SignDescriptor option) \<times> 'm world" where
  "SignDesc Called w =
     on_return (Called w ''SignDesc'' []) (\<lambda>args.
       bindP (Arguments_Get args 0) (\<lambda>sd.
         if is_nil sd then Inr None
         else assert_SignDescPtr sd))"

definition CraftInputScript_args ::
  "Signer option \<Rightarrow> nat option \<Rightarrow> TxSigHashes option \<Rightarrow> PrevOutputFetcher option \<Rightarrow> int
     \<Rightarrow> dyn list" where
  "CraftInputScript_args signer txn hashCache prevOutputFetcher txinIdx =
     [box_Signer signer, VMsgTxPtr txn, VTxSigHashesPtr hashCache,
      box_PrevOutputFetcher prevOutputFetcher, VInt txinIdx]"

definition CraftInputScript ::
  "'m Called \<Rightarrow> Signer option \<Rightarrow> nat option \<Rightarrow> TxSigHashes option
     \<Rightarrow> PrevOutputFetcher option \<Rightarrow> int \<Rightarrow> 'm world
     \<Rightarrow> (panic + Script option \<times> error option) \<times> 'm world" where
  "CraftInputScript Called signer txn hashCache prevOutputFetcher txinIdx w =
     on_return
       (Called w ''CraftInputScript''
          (CraftInputScript_args signer txn hashCache prevOutputFetcher txinIdx))
       (\<lambda>args.
         bindP (Arguments_Get args 0) (\<lambda>s.
           if is_nil s then bindP (Arguments_Error args 1) (\<lambda>err. Inr (None, err))
           else bindP (Arguments_Error args 1) (\<lambda>err.
                  bindP (assert_ScriptPtr s) (\<lambda>script. Inr (script, err)))))"

definition UnconfParent :: "'m Called \<Rightarrow> 'm world \<Rightarrow> (panic + TxInfo option) \<times> 'm world" where
  "UnconfParent Called w =
     on_return (Called w ''UnconfParent'' []) (\<lambda>args.
       bindP (Arguments_Get args 0) (\<lambda>info.
         if is_nil info then Inr None
         else assert_TxInfoPtr info))"

section \<open>MockWitnessType\<close>

text \<open>
  \<^verbatim>\<open>WitnessGenerator\<close> takes a signer and a descriptor and calls \<^verbatim>\<open>m.Called()\<close> with no
  argument at all.
\<close>

definition WitnessGenerator ::
  "'m Called \<Rightarrow> Signer option \<Rightarrow> SignDescriptor option \<Rightarrow> 'm world
     \<Rightarrow> (panic + WitnessGenerator option) \<times> 'm world" where
  "WitnessGenerator Called signer descriptor w =
     on_return (Called w ''WitnessGenerator'' []) (\<lambda>args.
       bindP (Arguments_Get args 0) assert_WitnessGenerator)"

definition SizeUpperBound ::
  "'m Called \<Rightarrow> 'm world \<Rightarrow> (panic + 64 word \<times> bool \<times> error option) \<times> 'm world" where
  "SizeUpperBound Called w =
     on_return (Called w ''SizeUpperBound'' []) (\<lambda>args.
       bindP (Arguments_Get args 0) (\<lambda>v.
         bindP (assert_WeightUnit v) (\<lambda>weight.
           bindP (Arguments_Bool args 1) (\<lambda>nested.
             bindP (Arguments_Error args 2) (\<lambda>err. Inr (weight, nested, err))))))"

section \<open>MockInputSigner\<close>

definition SignOutputRaw ::
  "'m Called \<Rightarrow> nat option \<Rightarrow> SignDescriptor option \<Rightarrow> 'm world
     \<Rightarrow> (panic + Signature option \<times> error option) \<times> 'm world" where
  "SignOutputRaw Called tx signDesc w =
     on_return (Called w ''SignOutputRaw'' [VMsgTxPtr tx, VSignDescPtr signDesc]) (\<lambda>args.
       bindP (Arguments_Get args 0) (\<lambda>v.
         if is_nil v then bindP (Arguments_Error args 1) (\<lambda>err. Inr (None, err))
         else bindP (assert_Signature v) (\<lambda>sig.
                bindP (Arguments_Error args 1) (\<lambda>err. Inr (sig, err)))))"

definition MuSig2RegisterNonces ::
  "'m Called \<Rightarrow> bytes \<Rightarrow> bytes list \<Rightarrow> 'm world
     \<Rightarrow> (panic + bool \<times> error option) \<times> 'm world" where
  "MuSig2RegisterNonces Called versio pubNonces w =
     on_return
       (Called w ''MuSig2RegisterNonces'' [VSessionID versio, VPubNonces pubNonces])
       (\<lambda>args.
         bindP (Arguments_Get args 0) (\<lambda>v.
           if is_nil v then bindP (Arguments_Error args 1) (\<lambda>err. Inr (False, err))
           else bindP (Arguments_Bool args 0) (\<lambda>b.
                  bindP (Arguments_Error args 1) (\<lambda>err. Inr (b, err)))))"

definition MuSig2Sign ::
  "'m Called \<Rightarrow> bytes \<Rightarrow> bytes \<Rightarrow> bool \<Rightarrow> 'm world
     \<Rightarrow> (panic + PartialSignature option \<times> error option) \<times> 'm world" where
  "MuSig2Sign Called sessionID msg withSortedKeys w =
     on_return
       (Called w ''MuSig2Sign'' [VSessionID sessionID, VMsg msg, VBool withSortedKeys])
       (\<lambda>args.
         bindP (Arguments_Get args 0) (\<lambda>v.
           if is_nil v then bindP (Arguments_Error args 1) (\<lambda>err. Inr (None, err))
           else bindP (Arguments_Error args 1) (\<lambda>err.
                  bindP (assert_PartialSigPtr v) (\<lambda>sig. Inr (sig, err)))))"

definition MuSig2CombineSig ::
  "'m Called \<Rightarrow> bytes \<Rightarrow> PartialSignature option list \<Rightarrow> 'm world
     \<Rightarrow> (panic + SchnorrSignature option \<times> bool \<times> error option) \<times> 'm world" where
  "MuSig2CombineSig Called sessionID partialSig w =
     on_return
       (Called w ''MuSig2CombineSig'' [VSessionID sessionID, VPartialSigs partialSig])
       (\<lambda>args.
         bindP (Arguments_Get args 0) (\<lambda>v.
           if is_nil v then bindP (Arguments_Error args 2) (\<lambda>err. Inr (None, False, err))
           else bindP (Arguments_Bool args 1) (\<lambda>b.
                  bindP (Arguments_Error args 2) (\<lambda>err.
                    bindP (assert_SchnorrSigPtr v) (\<lambda>sig. Inr (sig, b, err))))))"

definition MuSig2Cleanup ::
  "'m Called \<Rightarrow> bytes \<Rightarrow> 'm world \<Rightarrow> (panic + error option) \<times> 'm world" where
  "MuSig2Cleanup Called sessionID w =
     on_return (Called w ''MuSig2Cleanup'' [VSessionID sessionID]) (\<lambda>args.
       bindP (Arguments_Error args 0) Inr)"

section \<open>A concrete dispatcher\<close>

text \<open>
  testify's \<^verbatim>\<open>Mock\<close> for expectations set with \<^verbatim>\<open>On(method, args...).Return(values...)\<close>,
  optionally followed by \<^verbatim>\<open>.Once()\<close>. \<^verbatim>\<open>Called\<close> takes the first expectation of that
  method whose arguments are equal to the call's and whose \<^verbatim>\<open>Repeatability\<close> is not
  \<open>-1\<close>, and panics when there is none; an expectation that may be used once more
  (\<^verbatim>\<open>Repeatability == 1\<close>) is then closed (\<open>-1\<close>), a larger count is decremented, and
  \<open>0\<close> means any number of times. The call is appended to \<^verbatim>\<open>Calls\<close>. This dispatcher
  is the concrete input of the examples below; the general statements hold for every
  dispatcher.
\<close>

record Call =
  Method :: string
  Arguments :: "dyn list"
  ReturnArguments :: "dyn list"
  Repeatability :: int
  totalCalls :: nat

record Mock =
  ExpectedCalls :: "Call list"
  Calls :: "(string \<times> dyn list) list"

fun findExpectedCall :: "Call list \<Rightarrow> string \<Rightarrow> dyn list \<Rightarrow> nat option" where
  "findExpectedCall [] method args = None"
| "findExpectedCall (call # calls) method args =
     (if Method call = method \<and> Arguments call = args \<and> Repeatability call > -1 then Some 0
      else map_option Suc (findExpectedCall calls method args))"

definition MethodCalled :: "Mock Called" where
  "MethodCalled w methodName arguments =
     (case findExpectedCall (ExpectedCalls (mock w)) methodName arguments of
        None \<Rightarrow> (Inl (PanicMock methodName), w)
      | Some i \<Rightarrow>
          (let call = ExpectedCalls (mock w) ! i;
               call' = call\<lparr>Repeatability :=
                               (if Repeatability call = 1 then -1
                                else if Repeatability call > 1 then Repeatability call - 1
                                else Repeatability call),
                             totalCalls := totalCalls call + 1\<rparr>
           in (Inr (ReturnArguments call),
               w\<lparr>mock := \<lparr>ExpectedCalls = (ExpectedCalls (mock w))[i := call'],
                            Calls = Calls (mock w) @ [(methodName, arguments)]\<rparr>\<rparr>)))"

definition On :: "string \<Rightarrow> dyn list \<Rightarrow> dyn list \<Rightarrow> Call" where
  "On method args rets =
     \<lparr>Method = method, Arguments = args, ReturnArguments = rets, Repeatability = 0,
      totalCalls = 0\<rparr>"

definition Once :: "Call \<Rightarrow> Call" where
  "Once call = call\<lparr>Repeatability := 1\<rparr>"

definition new_world :: "Call list \<Rightarrow> (nat \<rightharpoonup> MsgTx) \<Rightarrow> Mock world" where
  "new_world expected store = \<lparr>mock = \<lparr>ExpectedCalls = expected, Calls = []\<rparr>, txs = store\<rparr>"

text \<open>
  An expectation may carry a hook, \<^verbatim>\<open>On(...).Return(...).Run(func(args mock.Arguments))\<close>.
  \<^verbatim>\<open>Called\<close> runs it on the arguments of the call after the call is recorded and before
  the return values are handed back; the hook holds the pointers among the arguments
  and can write through them. The dispatcher below runs one hook on every matched
  call; a call that matches no expectation panics before any hook runs.
\<close>

definition MethodCalled_Run ::
  "(dyn list \<Rightarrow> (nat \<rightharpoonup> MsgTx) \<Rightarrow> (nat \<rightharpoonup> MsgTx)) \<Rightarrow> Mock Called" where
  "MethodCalled_Run runFn w methodName arguments =
     (case MethodCalled w methodName arguments of
        (Inl p, w') \<Rightarrow> (Inl p, w')
      | (Inr rets, w') \<Rightarrow> (Inr rets, w'\<lparr>txs := runFn arguments (txs w')\<rparr>))"

text \<open>
  The hook \<^verbatim>\<open>func(args mock.Arguments) { args.Get(1).(*wire.MsgTx).LockTime = 7 }\<close>.
\<close>

fun set_LockTime :: "dyn list \<Rightarrow> (nat \<rightharpoonup> MsgTx) \<Rightarrow> (nat \<rightharpoonup> MsgTx)" where
  "set_LockTime (a # VMsgTxPtr (Some p) # rest) store =
     (case store p of
        None \<Rightarrow> store
      | Some tx \<Rightarrow> store(p \<mapsto> tx\<lparr>LockTime := 7\<rparr>))"
| "set_LockTime args store = store"

section \<open>The size of a witness\<close>

text \<open>
  Modelled from the spec: the byte length of a witness. No function of the file measures
  a witness; the length is taken as the number of bytes on the witness stack.
\<close>

definition witness_bytes :: "bytes list \<Rightarrow> nat" where
  "witness_bytes wit = sum_list (map length wit)"

section \<open>Test configurations\<close>

definition sid :: bytes where
  "sid = replicate 32 1"

definition msg32 :: bytes where
  "msg32 = replicate 32 2"

definition tx0 :: MsgTx where
  "tx0 = \<lparr>Version = 2, TxOuts = [], LockTime = 0\<rparr>"

text \<open>A generator whose witness is a single byte.\<close>

definition one_byte_generator :: WitnessGenerator where
  "one_byte_generator tx hc inputIndex = (Some \<lparr>Witness = [[1]], SigScript = []\<rparr>, None)"

text \<open>
  \<^verbatim>\<open>wt.On("SizeUpperBound").Return(lntypes.WeightUnit(0), false, nil)\<close> and
  \<^verbatim>\<open>wt.On("WitnessGenerator").Return(gen)\<close>.
\<close>

definition undersized_world :: "Mock world" where
  "undersized_world =
     new_world
       [On ''SizeUpperBound'' [] [VWeightUnit 0, VBool False, VNil],
        On ''WitnessGenerator'' [] [VWitnessGenerator (Some one_byte_generator)]]
       Map.empty"

text \<open>The same with a declared size of one.\<close>

definition sized_world :: "Mock world" where
  "sized_world =
     new_world
       [On ''SizeUpperBound'' [] [VWeightUnit 1, VBool False, VNil],
        On ''WitnessGenerator'' [] [VWitnessGenerator (Some one_byte_generator)]]
       Map.empty"

text \<open>
  \<^verbatim>\<open>On("CraftInputScript", signer, txn, nil, nil, 0).Return(nil, nil)\<close> and
  \<^verbatim>\<open>On("SignOutputRaw", txn, desc).Return(nil, nil)\<close>, with the transaction at address 0.
\<close>

definition neither_world :: "Mock world" where
  "neither_world =
     new_world
       [On ''CraftInputScript''
          (CraftInputScript_args (Some (Signer 0)) (Some 0) None None 0) [VNil, VNil],
        On ''SignOutputRaw'' [VMsgTxPtr (Some 0), VSignDescPtr (Some (SignDescriptor 0))]
          [VNil, VNil]]
       [0 \<mapsto> tx0]"

text \<open>
  \<^verbatim>\<open>On("SignOutputRaw", txn, desc).Return(sig, err)\<close> with a signature and an error.
\<close>

definition both_world :: "Mock world" where
  "both_world =
     new_world
       [On ''SignOutputRaw'' [VMsgTxPtr (Some 0), VSignDescPtr (Some (SignDescriptor 0))]
          [VSignature (Signature [5]), VError (Err ''key unavailable'')]]
       [0 \<mapsto> tx0]"

text \<open>
  A signer mock whose cleanup succeeds and whose \<^verbatim>\<open>MuSig2Sign\<close> is configured to fail.
\<close>

definition failing_world :: "Mock world" where
  "failing_world =
     new_world
       [On ''MuSig2Cleanup'' [VSessionID sid] [VNil],
        On ''MuSig2Sign'' [VSessionID sid, VMsg msg32, VBool True]
          [VNil, VError (Err ''session not found'')]]
       Map.empty"

text \<open>A signer mock with one successful expectation for each MuSig2 method.\<close>

definition cleaned_world :: "Mock world" where
  "cleaned_world =
     new_world
       [On ''MuSig2Cleanup'' [VSessionID sid] [VNil],
        On ''MuSig2RegisterNonces'' [VSessionID sid, VPubNonces [[3]]] [VBool True, VNil],
        On ''MuSig2Sign'' [VSessionID sid, VMsg msg32, VBool True]
          [VPartialSigPtr (Some (PartialSignature [7])), VNil],
        On ''MuSig2Sign'' [VSessionID sid, VMsg msg32, VBool False]
          [VPartialSigPtr (Some (PartialSignature [8])), VNil],
        On ''MuSig2CombineSig'' [VSessionID sid, VPartialSigs [Some (PartialSignature [9])]]
          [VSchnorrSigPtr (Some (SchnorrSignature [10])), VBool True, VNil]]
       Map.empty"

text \<open>
  Two expectations for the same call, each \<^verbatim>\<open>.Once()\<close>: the first answers false, the
  second true.
\<close>

definition twice_world :: "Mock world" where
  "twice_world =
     new_world
       [Once (On ''MuSig2RegisterNonces'' [VSessionID sid, VPubNonces [[3]]]
                [VBool False, VNil]),
        Once (On ''MuSig2RegisterNonces'' [VSessionID sid, VPubNonces [[3]]]
                [VBool True, VNil])]
       Map.empty"

text \<open>
  Two expectations for the same \<^verbatim>\<open>MuSig2Sign\<close> call, each \<^verbatim>\<open>.Once()\<close>, with two
  different signatures.
\<close>

definition once_sign_world :: "Mock world" where
  "once_sign_world =
     new_world
       [Once (On ''MuSig2Sign'' [VSessionID sid, VMsg msg32, VBool True]
                [VPartialSigPtr (Some (PartialSignature [7])), VNil]),
        Once (On ''MuSig2Sign'' [VSessionID sid, VMsg msg32, VBool True]
                [VPartialSigPtr (Some (PartialSignature [8])), VNil])]
       Map.empty"

text \<open>Every accessor of \<^verbatim>\<open>MockInput\<close> configured with \<^verbatim>\<open>Return(nil)\<close>.\<close>

definition nil_world :: "Mock world" where
  "nil_world =
     new_world
       [On ''RequiredTxOut'' [] [VNil],
        On ''WitnessType'' [] [VNil],
        On ''SignDesc'' [] [VNil],
        On ''UnconfParent'' [] [VNil]]
       Map.empty"

text \<open>
  \<^verbatim>\<open>On("MuSig2CombineSig", id, sigs).Return((*schnorr.Signature)(nil), true, nil)\<close>: a
  nil pointer of the right type, which is not the nil interface.
\<close>

definition typed_nil_world :: "Mock world" where
  "typed_nil_world =
     new_world
       [On ''MuSig2CombineSig'' [VSessionID sid, VPartialSigs []]
          [VSchnorrSigPtr None, VBool True, VNil]]
       Map.empty"

text \<open>\<^verbatim>\<open>On("MuSig2CombineSig", id, sigs).Return(nil, true, err)\<close>.\<close>

definition combine_nil_world :: "Mock world" where
  "combine_nil_world =
     new_world
       [On ''MuSig2CombineSig'' [VSessionID sid, VPartialSigs []]
          [VNil, VBool True, VError (Err ''session not found'')]]
       Map.empty"

section \<open>Basic facts\<close>

lemma bindP_simps [simp]: "bindP (Inl p) f = Inl p" "bindP (Inr a) f = f a"
  by (simp_all add: bindP_def)

lemma fst_on_return [simp]: "fst (on_return r body) = bindP (fst r) body"
  by (simp add: on_return_def)

lemma snd_on_return [simp]: "snd (on_return r body) = snd r"
  by (simp add: on_return_def)

lemmas world_simps = new_world_def MethodCalled_def On_def Once_def
  Arguments_Get_def Arguments_Bool_def Arguments_Error_def

section \<open>MockWitnessType: declared size and generated witness\<close>

text \<open>
  Claim C1 says that the size returned by \<^verbatim>\<open>SizeUpperBound\<close> is at least the byte length
  of any witness produced by the generator that \<^verbatim>\<open>WitnessGenerator\<close> returns. On the mock
  the two methods return two unrelated configured values: configured with a size of 0
  and a generator whose witness is one byte long, \<^verbatim>\<open>SizeUpperBound\<close> returns 0 and the
  generated witness has 1 byte.
\<close>

theorem SizeUpperBound_below_witness_counterexample:
  "fst (SizeUpperBound MethodCalled undersized_world) = Inr (0, False, None) \<and>
   fst (WitnessGenerator MethodCalled (Some (Signer 0)) (Some (SignDescriptor 0))
          undersized_world) = Inr (Some one_byte_generator) \<and>
   one_byte_generator (Some tx0) None 0 = (Some \<lparr>Witness = [[1]], SigScript = []\<rparr>, None) \<and>
   unat (0 :: 64 word) < witness_bytes (Witness \<lparr>Witness = [[1]], SigScript = []\<rparr>)"
  by (simp add: SizeUpperBound_def WitnessGenerator_def undersized_world_def world_simps
      one_byte_generator_def witness_bytes_def)

text \<open>
  Claim C1, amended: for every mock whose configured size is at least the byte length of
  every witness its configured generator produces, and for every signer and descriptor,
  the size returned by \<^verbatim>\<open>SizeUpperBound\<close> is at least the byte length of any witness
  produced by the generator returned from \<^verbatim>\<open>WitnessGenerator\<close>. The two methods return
  the configured size and the configured generator, whatever the dispatcher is.
\<close>

theorem SizeUpperBound_bounds_configured_generator:
  assumes "fst (C w ''SizeUpperBound'' []) = Inr (VWeightUnit n # rs)"
      and "fst (C w' ''WitnessGenerator'' []) = Inr (VWitnessGenerator (Some g) # rg)"
      and "\<forall>tx hc i s e. g tx hc i = (Some s, e) \<longrightarrow> witness_bytes (Witness s) \<le> unat n"
      and "fst (SizeUpperBound C w) = Inr (sz, nested, err)"
      and "fst (WitnessGenerator C signer descriptor w') = Inr (Some gen)"
      and "gen tx hc i = (Some s, e)"
  shows "witness_bytes (Witness s) \<le> unat sz"
proof -
  from assms(1,4) have "sz = n"
    by (simp add: SizeUpperBound_def Arguments_Get_def bindP_def split: sum.splits)
  moreover from assms(2,5) have "gen = g"
    by (simp add: WitnessGenerator_def Arguments_Get_def)
  ultimately show ?thesis using assms(3,6) by blast
qed

theorem SizeUpperBound_bounds_configured_generator_witness:
  "fst (SizeUpperBound MethodCalled sized_world) = Inr (1, False, None) \<and>
   fst (WitnessGenerator MethodCalled (Some (Signer 0)) (Some (SignDescriptor 0)) sized_world)
     = Inr (Some one_byte_generator) \<and>
   one_byte_generator (Some tx0) None 0 = (Some \<lparr>Witness = [[1]], SigScript = []\<rparr>, None) \<and>
   witness_bytes (Witness \<lparr>Witness = [[1]], SigScript = []\<rparr>) \<le> unat (1 :: 64 word)"
proof -
  have a: "fst (MethodCalled sized_world ''SizeUpperBound'' [])
             = Inr (VWeightUnit 1 # [VBool False, VNil])"
    by (simp add: sized_world_def new_world_def MethodCalled_def On_def)
  have b: "fst (MethodCalled sized_world ''WitnessGenerator'' [])
             = Inr (VWitnessGenerator (Some one_byte_generator) # [])"
    by (simp add: sized_world_def new_world_def MethodCalled_def On_def)
  have c: "\<forall>tx hc i s e. one_byte_generator tx hc i = (Some s, e)
             \<longrightarrow> witness_bytes (Witness s) \<le> unat (1 :: 64 word)"
    by (auto simp: one_byte_generator_def witness_bytes_def)
  have d: "fst (SizeUpperBound MethodCalled sized_world) = Inr (1, False, None)"
    by (simp add: SizeUpperBound_def a Arguments_Get_def Arguments_Bool_def Arguments_Error_def)
  have e: "fst (WitnessGenerator MethodCalled (Some (Signer 0)) (Some (SignDescriptor 0))
                  sized_world) = Inr (Some one_byte_generator)"
    by (simp add: WitnessGenerator_def b Arguments_Get_def)
  have f: "one_byte_generator (Some tx0) None 0
             = (Some \<lparr>Witness = [[1]], SigScript = []\<rparr>, None)"
    by (simp add: one_byte_generator_def)
  from SizeUpperBound_bounds_configured_generator [OF a b c d e f] d e f
  show ?thesis by simp
qed

section \<open>MockInput.CraftInputScript\<close>

text \<open>
  Claim C2 says that \<^verbatim>\<open>CraftInputScript\<close> returns a non-nil Script or fails with an
  error, never neither. Configured with \<^verbatim>\<open>Return(nil, nil)\<close> the method takes the branch
  \<^verbatim>\<open>return nil, args.Error(1)\<close> and returns a nil Script together with a nil error.
\<close>

theorem CraftInputScript_neither_counterexample:
  "fst (CraftInputScript MethodCalled (Some (Signer 0)) (Some 0) None None 0 neither_world)
     = Inr (None, None)"
  by (simp add: CraftInputScript_def CraftInputScript_args_def neither_world_def world_simps)

text \<open>
  Claim C2, amended: \<^verbatim>\<open>CraftInputScript\<close> returns a non-nil Script, or an error, or
  panics, except when the first value the mock is configured to return is nil (the nil
  interface or a nil \<^verbatim>\<open>*Script\<close>) and the second is nil: exactly then it returns a nil
  Script and a nil error.
\<close>

theorem CraftInputScript_neither_iff:
  "fst (CraftInputScript C signer txn hashCache fetcher idx w) = Inr (None, None) \<longleftrightarrow>
   (\<exists>s rest. fst (C w ''CraftInputScript'' (CraftInputScript_args signer txn hashCache fetcher idx))
        = Inr (s # VNil # rest) \<and> (s = VNil \<or> s = VScriptPtr None))"
proof (cases "fst (C w ''CraftInputScript'' (CraftInputScript_args signer txn hashCache fetcher idx))")
  case (Inl p)
  then show ?thesis by (simp add: CraftInputScript_def)
next
  case (Inr args)
  show ?thesis
  proof (cases args)
    case Nil
    with Inr show ?thesis by (simp add: CraftInputScript_def Arguments_Get_def)
  next
    case (Cons s tl)
    note c1 = this
    show ?thesis
    proof (cases tl)
      case Nil
      with Inr c1 show ?thesis
        by (cases s) (simp_all add: CraftInputScript_def Arguments_Get_def Arguments_Error_def)
    next
      case (Cons e rest)
      with Inr c1 show ?thesis
        by (cases s; cases e)
           (simp_all add: CraftInputScript_def Arguments_Get_def Arguments_Error_def)
    qed
  qed
qed

text \<open>
  Claim C3 says that every call of \<^verbatim>\<open>CraftInputScript\<close> leaves the passed transaction
  unchanged. The method hands the pointer \<^verbatim>\<open>txn\<close> to \<^verbatim>\<open>m.Called\<close>, and a hook configured
  on the expectation writes through it: the transaction at address 0 has lock time 0
  before the call and 7 after it, while the call returns a nil Script and a nil error.
\<close>

theorem CraftInputScript_Run_hook_counterexample:
  "fst (CraftInputScript (MethodCalled_Run set_LockTime) (Some (Signer 0)) (Some 0) None None 0
          neither_world) = Inr (None, None) \<and>
   map_option LockTime (txs neither_world 0) = Some 0 \<and>
   map_option LockTime
     (txs (snd (CraftInputScript (MethodCalled_Run set_LockTime) (Some (Signer 0)) (Some 0)
                  None None 0 neither_world)) 0) = Some 7"
  by (simp add: CraftInputScript_def CraftInputScript_args_def MethodCalled_Run_def
      neither_world_def tx0_def world_simps)

text \<open>
  Claim C3, amended: a call of \<^verbatim>\<open>CraftInputScript\<close> writes nothing of its own. Whether it
  returns or panics, the state after the call, the transactions included, is the state
  the mock's dispatcher \<^verbatim>\<open>m.Called\<close> leaves (with any hook configured on the
  expectation); so the transactions are unchanged by the call whenever the dispatcher
  leaves them unchanged.
\<close>

theorem CraftInputScript_frame:
  "snd (CraftInputScript C signer txn hashCache fetcher idx w)
     = snd (C w ''CraftInputScript'' (CraftInputScript_args signer txn hashCache fetcher idx)) \<and>
   (txs (snd (C w ''CraftInputScript'' (CraftInputScript_args signer txn hashCache fetcher idx)))
      = txs w \<longrightarrow>
    txs (snd (CraftInputScript C signer txn hashCache fetcher idx w)) = txs w)"
  by (simp add: CraftInputScript_def)

theorem CraftInputScript_frame_witness:
  "txs (snd (MethodCalled neither_world ''CraftInputScript''
          (CraftInputScript_args (Some (Signer 0)) (Some 0) None None 0))) = txs neither_world \<and>
   txs (snd (CraftInputScript MethodCalled (Some (Signer 0)) (Some 0) None None 0 neither_world))
     = txs neither_world \<and>
   txs neither_world 0 = Some tx0"
  using CraftInputScript_frame
          [of MethodCalled "Some (Signer 0)" "Some 0" None None 0 neither_world]
  by (simp add: CraftInputScript_args_def neither_world_def world_simps)

section \<open>MockInput accessors on a nil configured value\<close>

text \<open>
  Claim C8: when the mock is configured to return nil, each of \<^verbatim>\<open>RequiredTxOut\<close>,
  \<^verbatim>\<open>WitnessType\<close>, \<^verbatim>\<open>SignDesc\<close> and \<^verbatim>\<open>UnconfParent\<close> returns nil; it does not reach the
  type assertion, which would panic on the nil interface.
\<close>

theorem accessors_nil_total:
  "(fst (C w ''RequiredTxOut'' []) = Inr (VNil # r1) \<longrightarrow> fst (RequiredTxOut C w) = Inr None) \<and>
   (fst (C w ''WitnessType'' []) = Inr (VNil # r2) \<longrightarrow> fst (WitnessType C w) = Inr None) \<and>
   (fst (C w ''SignDesc'' []) = Inr (VNil # r3) \<longrightarrow> fst (SignDesc C w) = Inr None) \<and>
   (fst (C w ''UnconfParent'' []) = Inr (VNil # r4) \<longrightarrow> fst (UnconfParent C w) = Inr None)"
  by (simp add: RequiredTxOut_def WitnessType_def SignDesc_def UnconfParent_def
      Arguments_Get_def)

theorem accessors_nil_total_witness:
  "fst (RequiredTxOut MethodCalled nil_world) = Inr None \<and>
   fst (WitnessType MethodCalled nil_world) = Inr None \<and>
   fst (SignDesc MethodCalled nil_world) = Inr None \<and>
   fst (UnconfParent MethodCalled nil_world) = Inr None"
proof -
  have "fst (MethodCalled nil_world ''RequiredTxOut'' []) = Inr (VNil # [])"
       "fst (MethodCalled nil_world ''WitnessType'' []) = Inr (VNil # [])"
       "fst (MethodCalled nil_world ''SignDesc'' []) = Inr (VNil # [])"
       "fst (MethodCalled nil_world ''UnconfParent'' []) = Inr (VNil # [])"
    by (simp_all add: nil_world_def world_simps)
  with accessors_nil_total [of MethodCalled nil_world "[]" "[]" "[]" "[]"]
  show ?thesis by blast
qed

section \<open>MockWitnessType.WitnessGenerator\<close>

text \<open>
  Claim C10: \<^verbatim>\<open>WitnessGenerator\<close> does not depend on its arguments. From the same state
  of the mock, two calls with any two signers and descriptors have the same outcome,
  since the dispatcher is called with no argument.
\<close>

theorem WitnessGenerator_ignores_arguments:
  "WitnessGenerator C signer descriptor w = WitnessGenerator C signer' descriptor' w"
  by (simp add: WitnessGenerator_def)

section \<open>MockInputSigner.SignOutputRaw\<close>

text \<open>
  Claim C7 says that \<^verbatim>\<open>SignOutputRaw\<close> produces a non-nil signature or fails with an
  error, and that on the failure path the Signature is nil. Configured with
  \<^verbatim>\<open>Return(nil, nil)\<close> it returns a nil Signature and a nil error; configured with
  \<^verbatim>\<open>Return(sig, err)\<close> it returns the error together with the non-nil Signature.
\<close>

theorem SignOutputRaw_neither_or_both_counterexample:
  "fst (SignOutputRaw MethodCalled (Some 0) (Some (SignDescriptor 0)) neither_world)
     = Inr (None, None) \<and>
   fst (SignOutputRaw MethodCalled (Some 0) (Some (SignDescriptor 0)) both_world)
     = Inr (Some (Signature [5]), Some (Err ''key unavailable''))"
  by (simp add: SignOutputRaw_def neither_world_def both_world_def CraftInputScript_args_def
      world_simps)

text \<open>
  Claim C7, amended: \<^verbatim>\<open>SignOutputRaw\<close> returns exactly what the mock is configured with.
  It returns a Signature \<open>sig\<close> and an error \<open>err\<close> exactly when the first value the
  dispatcher yields is nil and \<open>sig\<close> is nil, or is a Signature and \<open>sig\<close> is that
  (non-nil) Signature, and the second value is nil or an error and \<open>err\<close> is that
  value; otherwise it panics. So it returns neither a Signature nor an error exactly
  when configured with \<^verbatim>\<open>Return(nil, nil)\<close>, the error it returns is always the
  configured one, and the Signature it returns with an error is nil exactly when the
  configured first value is nil.
\<close>

theorem SignOutputRaw_returns_configured:
  "fst (SignOutputRaw C tx signDesc w) = Inr (sig, err) \<longleftrightarrow>
     (\<exists>v e rest. fst (C w ''SignOutputRaw'' [VMsgTxPtr tx, VSignDescPtr signDesc])
          = Inr (v # e # rest) \<and>
        error_of 1 e = Inr err \<and>
        (v = VNil \<and> sig = None \<or> (\<exists>s. v = VSignature s \<and> sig = Some s)))"
proof (cases "fst (C w ''SignOutputRaw'' [VMsgTxPtr tx, VSignDescPtr signDesc])")
  case (Inl p)
  then show ?thesis by (simp add: SignOutputRaw_def)
next
  case (Inr args)
  show ?thesis
  proof (cases args)
    case Nil
    with Inr show ?thesis by (simp add: SignOutputRaw_def Arguments_Get_def)
  next
    case (Cons v tl)
    note c1 = this
    show ?thesis
    proof (cases tl)
      case Nil
      with Inr c1 show ?thesis
        by (cases v) (simp_all add: SignOutputRaw_def Arguments_Error_def Arguments_Get_def)
    next
      case (Cons e rest)
      with Inr c1 show ?thesis
        by (cases v; cases e)
           (auto simp: SignOutputRaw_def Arguments_Error_def Arguments_Get_def)
    qed
  qed
qed

theorem SignOutputRaw_returns_configured_witness:
  "fst (MethodCalled both_world ''SignOutputRaw''
          [VMsgTxPtr (Some 0), VSignDescPtr (Some (SignDescriptor 0))])
     = Inr [VSignature (Signature [5]), VError (Err ''key unavailable'')] \<and>
   fst (SignOutputRaw MethodCalled (Some 0) (Some (SignDescriptor 0)) both_world)
     = Inr (Some (Signature [5]), Some (Err ''key unavailable''))"
proof -
  have a: "fst (MethodCalled both_world ''SignOutputRaw''
                  [VMsgTxPtr (Some 0), VSignDescPtr (Some (SignDescriptor 0))])
             = Inr (VSignature (Signature [5]) # VError (Err ''key unavailable'') # [])"
    by (simp add: both_world_def world_simps)
  have "\<exists>v e rest. fst (MethodCalled both_world ''SignOutputRaw''
                          [VMsgTxPtr (Some 0), VSignDescPtr (Some (SignDescriptor 0))])
            = Inr (v # e # rest) \<and>
          error_of 1 e = Inr (Some (Err ''key unavailable'')) \<and>
          (v = VNil \<and> Some (Signature [5]) = None \<or>
           (\<exists>s. v = VSignature s \<and> Some (Signature [5]) = Some s))"
    using a by simp
  then have "fst (SignOutputRaw MethodCalled (Some 0) (Some (SignDescriptor 0)) both_world)
               = Inr (Some (Signature [5]), Some (Err ''key unavailable''))"
    using SignOutputRaw_returns_configured
            [of MethodCalled "Some 0" "Some (SignDescriptor 0)" both_world
                "Some (Signature [5])" "Some (Err ''key unavailable'')"]
    by blast
  with a show ?thesis by simp
qed

section \<open>MockInputSigner: the MuSig2 methods\<close>

text \<open>
  Claim C4 says that after \<^verbatim>\<open>MuSig2Cleanup(id)\<close> every MuSig2 operation on that ID fails
  with a session-not-found error. The mock keeps no session: with one successful
  expectation for each method, the cleanup returns nil, and after it
  \<^verbatim>\<open>MuSig2RegisterNonces\<close>, \<^verbatim>\<open>MuSig2Sign\<close> and \<^verbatim>\<open>MuSig2CombineSig\<close> on the same ID all
  succeed with a nil error.
\<close>

theorem MuSig2Cleanup_then_operations_counterexample:
  "fst (MuSig2Cleanup MethodCalled sid cleaned_world) = Inr None \<and>
   fst (MuSig2RegisterNonces MethodCalled sid [[3]]
          (snd (MuSig2Cleanup MethodCalled sid cleaned_world))) = Inr (True, None) \<and>
   fst (MuSig2Sign MethodCalled sid msg32 True
          (snd (MuSig2Cleanup MethodCalled sid cleaned_world)))
     = Inr (Some (PartialSignature [7]), None) \<and>
   fst (MuSig2CombineSig MethodCalled sid [Some (PartialSignature [9])]
          (snd (MuSig2Cleanup MethodCalled sid cleaned_world)))
     = Inr (Some (SchnorrSignature [10]), True, None)"
  by (simp add: MuSig2Cleanup_def MuSig2RegisterNonces_def MuSig2Sign_def MuSig2CombineSig_def
      cleaned_world_def world_simps)

text \<open>When the accessors and assertions return.\<close>

lemma bindP_eq_Inr: "bindP x f = Inr z \<longleftrightarrow> (\<exists>a. x = Inr a \<and> f a = Inr z)"
  by (cases x) simp_all

lemma is_nil_iff: "is_nil v \<longleftrightarrow> v = VNil"
  by (cases v) simp_all

lemma bool_of_eq_Inr: "bool_of i v = Inr b \<longleftrightarrow> v = VBool b"
  by (cases v) auto

lemma error_of_eq_Some: "error_of i v = Inr (Some e) \<longleftrightarrow> v = VError e"
  by (cases v) auto

lemma assert_PartialSigPtr_eq_Inr: "assert_PartialSigPtr v = Inr p \<longleftrightarrow> v = VPartialSigPtr p"
  by (cases v) auto

lemma assert_SchnorrSigPtr_eq_Inr: "assert_SchnorrSigPtr v = Inr p \<longleftrightarrow> v = VSchnorrSigPtr p"
  by (cases v) auto

lemmas returns_simps = bindP_eq_Inr is_nil_iff bool_of_eq_Inr error_of_eq_Some
  assert_PartialSigPtr_eq_Inr assert_SchnorrSigPtr_eq_Inr
  Arguments_Get_def Arguments_Bool_def Arguments_Error_def

text \<open>
  When each MuSig2 operation returns a non-nil error, in any state: exactly when the
  dispatcher yields that error as the configured error of the call.
\<close>

lemma MuSig2RegisterNonces_error_iff:
  "fst (MuSig2RegisterNonces C sessionID pubNonces w) = Inr (r, Some e) \<longleftrightarrow>
     (\<exists>v rest. fst (C w ''MuSig2RegisterNonces'' [VSessionID sessionID, VPubNonces pubNonces])
          = Inr (v # VError e # rest) \<and>
        (v = VNil \<and> r = False \<or> v = VBool r))"
proof (cases "fst (C w ''MuSig2RegisterNonces'' [VSessionID sessionID, VPubNonces pubNonces])")
  case (Inl p)
  then show ?thesis by (simp add: MuSig2RegisterNonces_def)
next
  case (Inr args)
  show ?thesis
  proof (cases args)
    case Nil
    with Inr show ?thesis by (simp add: MuSig2RegisterNonces_def Arguments_Get_def)
  next
    case (Cons v tl)
    note c1 = this
    show ?thesis
    proof (cases tl)
      case Nil
      with Inr c1 show ?thesis
        by (auto simp: MuSig2RegisterNonces_def returns_simps)
    next
      case (Cons x rest)
      with Inr c1 show ?thesis
        by (auto simp: MuSig2RegisterNonces_def returns_simps)
    qed
  qed
qed

lemma MuSig2Sign_error_iff:
  "fst (MuSig2Sign C sessionID msg withSortedKeys w) = Inr (sig, Some e) \<longleftrightarrow>
     (\<exists>v rest. fst (C w ''MuSig2Sign'' [VSessionID sessionID, VMsg msg, VBool withSortedKeys])
          = Inr (v # VError e # rest) \<and>
        (v = VNil \<and> sig = None \<or> v = VPartialSigPtr sig))"
proof (cases "fst (C w ''MuSig2Sign'' [VSessionID sessionID, VMsg msg, VBool withSortedKeys])")
  case (Inl p)
  then show ?thesis by (simp add: MuSig2Sign_def)
next
  case (Inr args)
  show ?thesis
  proof (cases args)
    case Nil
    with Inr show ?thesis by (simp add: MuSig2Sign_def Arguments_Get_def)
  next
    case (Cons v tl)
    note c1 = this
    show ?thesis
    proof (cases tl)
      case Nil
      with Inr c1 show ?thesis
        by (auto simp: MuSig2Sign_def returns_simps)
    next
      case (Cons x rest)
      with Inr c1 show ?thesis
        by (auto simp: MuSig2Sign_def returns_simps)
    qed
  qed
qed

lemma MuSig2CombineSig_error_iff:
  "fst (MuSig2CombineSig C sessionID partialSig w) = Inr (sig, combined, Some e) \<longleftrightarrow>
     (\<exists>v x rest. fst (C w ''MuSig2CombineSig'' [VSessionID sessionID, VPartialSigs partialSig])
          = Inr (v # x # VError e # rest) \<and>
        (v = VNil \<and> sig = None \<and> combined = False \<or>
         v = VSchnorrSigPtr sig \<and> x = VBool combined))"
proof (cases "fst (C w ''MuSig2CombineSig'' [VSessionID sessionID, VPartialSigs partialSig])")
  case (Inl p)
  then show ?thesis by (simp add: MuSig2CombineSig_def)
next
  case (Inr args)
  show ?thesis
  proof (cases args)
    case Nil
    with Inr show ?thesis by (simp add: MuSig2CombineSig_def Arguments_Get_def)
  next
    case (Cons v t1)
    note c1 = this
    show ?thesis
    proof (cases t1)
      case Nil
      with Inr c1 show ?thesis
        by (auto simp: MuSig2CombineSig_def returns_simps)
    next
      case (Cons x t2)
      note c2 = this
      show ?thesis
      proof (cases t2)
        case Nil
        with Inr c1 c2 show ?thesis
          by (auto simp: MuSig2CombineSig_def returns_simps)
      next
        case (Cons y t3)
        with Inr c1 c2 show ?thesis
          by (auto simp: MuSig2CombineSig_def returns_simps)
      qed
    qed
  qed
qed

text \<open>
  Claim C4, amended: \<^verbatim>\<open>MuSig2Cleanup\<close> keeps no session store. It leaves the state
  exactly as the mock's dispatcher leaves it, and it returns the error the mock is
  configured with (nil or not). After \<^verbatim>\<open>MuSig2Cleanup(id)\<close>, each of
  \<^verbatim>\<open>MuSig2RegisterNonces\<close>, \<^verbatim>\<open>MuSig2Sign\<close> and \<^verbatim>\<open>MuSig2CombineSig\<close> on the same ID returns
  an error exactly when the dispatcher, called in the state it left for the cleanup
  call, yields that error as the configured error of the operation: an operation fails
  after the cleanup only when the mock is configured to fail it.
\<close>

theorem MuSig2Cleanup_keeps_no_session:
  "snd (MuSig2Cleanup C sessionID w) = snd (C w ''MuSig2Cleanup'' [VSessionID sessionID]) \<and>
   (fst (MuSig2Cleanup C sessionID w) = Inr err \<longleftrightarrow>
      (\<exists>v rest. fst (C w ''MuSig2Cleanup'' [VSessionID sessionID]) = Inr (v # rest) \<and>
         error_of 0 v = Inr err)) \<and>
   (fst (MuSig2RegisterNonces C sessionID pubNonces (snd (MuSig2Cleanup C sessionID w)))
      = Inr (r, Some e) \<longleftrightarrow>
      (\<exists>v rest. fst (C (snd (C w ''MuSig2Cleanup'' [VSessionID sessionID]))
                     ''MuSig2RegisterNonces'' [VSessionID sessionID, VPubNonces pubNonces])
           = Inr (v # VError e # rest) \<and>
         (v = VNil \<and> r = False \<or> v = VBool r))) \<and>
   (fst (MuSig2Sign C sessionID msg withSortedKeys (snd (MuSig2Cleanup C sessionID w)))
      = Inr (sig, Some e) \<longleftrightarrow>
      (\<exists>v rest. fst (C (snd (C w ''MuSig2Cleanup'' [VSessionID sessionID]))
                     ''MuSig2Sign'' [VSessionID sessionID, VMsg msg, VBool withSortedKeys])
           = Inr (v # VError e # rest) \<and>
         (v = VNil \<and> sig = None \<or> v = VPartialSigPtr sig))) \<and>
   (fst (MuSig2CombineSig C sessionID partialSig (snd (MuSig2Cleanup C sessionID w)))
      = Inr (agg, combined, Some e) \<longleftrightarrow>
      (\<exists>v x rest. fst (C (snd (C w ''MuSig2Cleanup'' [VSessionID sessionID]))
                       ''MuSig2CombineSig'' [VSessionID sessionID, VPartialSigs partialSig])
           = Inr (v # x # VError e # rest) \<and>
         (v = VNil \<and> agg = None \<and> combined = False \<or>
          v = VSchnorrSigPtr agg \<and> x = VBool combined)))"
proof -
  have state: "snd (MuSig2Cleanup C sessionID w)
                 = snd (C w ''MuSig2Cleanup'' [VSessionID sessionID])"
    by (simp add: MuSig2Cleanup_def)
  have result: "(fst (MuSig2Cleanup C sessionID w) = Inr err) =
      (\<exists>v rest. fst (C w ''MuSig2Cleanup'' [VSessionID sessionID]) = Inr (v # rest) \<and>
         error_of 0 v = Inr err)"
  proof (cases "fst (C w ''MuSig2Cleanup'' [VSessionID sessionID])")
    case (Inl p)
    then show ?thesis by (simp add: MuSig2Cleanup_def)
  next
    case (Inr args)
    then show ?thesis
      by (cases args)
         (auto simp: MuSig2Cleanup_def Arguments_Error_def Arguments_Get_def bindP_def
            split: sum.splits)
  qed
  show ?thesis
    unfolding state
    by (intro conjI refl result MuSig2RegisterNonces_error_iff MuSig2Sign_error_iff
          MuSig2CombineSig_error_iff)
qed

theorem MuSig2Cleanup_keeps_no_session_witness:
  "fst (MethodCalled (snd (MethodCalled failing_world ''MuSig2Cleanup'' [VSessionID sid]))
          ''MuSig2Sign'' [VSessionID sid, VMsg msg32, VBool True])
     = Inr [VNil, VError (Err ''session not found'')] \<and>
   fst (MuSig2Cleanup MethodCalled sid failing_world) = Inr None \<and>
   fst (MuSig2Sign MethodCalled sid msg32 True
          (snd (MuSig2Cleanup MethodCalled sid failing_world)))
     = Inr (None, Some (Err ''session not found''))"
proof -
  note inst = MuSig2Cleanup_keeps_no_session
               [of MethodCalled sid failing_world None "[]" False "Err ''session not found''"
                   msg32 True None "[]" None False]
  have a: "fst (MethodCalled (snd (MethodCalled failing_world ''MuSig2Cleanup''
                  [VSessionID sid])) ''MuSig2Sign'' [VSessionID sid, VMsg msg32, VBool True])
             = Inr (VNil # VError (Err ''session not found'') # [])"
    by (simp add: failing_world_def world_simps)
  have b: "fst (MethodCalled failing_world ''MuSig2Cleanup'' [VSessionID sid])
             = Inr (VNil # [])"
    by (simp add: failing_world_def world_simps)
  from inst b have "fst (MuSig2Cleanup MethodCalled sid failing_world) = Inr None"
    by simp
  moreover from inst a
  have "fst (MuSig2Sign MethodCalled sid msg32 True
               (snd (MuSig2Cleanup MethodCalled sid failing_world)))
          = Inr (None, Some (Err ''session not found''))"
    by blast
  ultimately show ?thesis using a by simp
qed

text \<open>
  Claim C5 says that registering the same nonce twice leaves the session as registering
  it once does, and that \<^verbatim>\<open>MuSig2RegisterNonces\<close> returns true exactly once every
  expected nonce is present. The mock holds no nonces and returns the configured
  boolean: with two expectations for the same call, the first registration of a nonce
  returns false and the second registration of the same nonce returns true.
\<close>

theorem MuSig2RegisterNonces_twice_counterexample:
  "fst (MuSig2RegisterNonces MethodCalled sid [[3]] twice_world) = Inr (False, None) \<and>
   fst (MuSig2RegisterNonces MethodCalled sid [[3]]
          (snd (MuSig2RegisterNonces MethodCalled sid [[3]] twice_world))) = Inr (True, None)"
  by (simp add: MuSig2RegisterNonces_def twice_world_def world_simps)

text \<open>
  Claim C5, amended: \<^verbatim>\<open>MuSig2RegisterNonces\<close> keeps no session state of its own: the
  state after a call is the state the mock's dispatcher leaves. The call returns true
  exactly when the first value the mock is configured to return for it is the boolean
  true (the second being nil or an error, which is returned with it), whatever nonces
  have been registered.
\<close>

theorem MuSig2RegisterNonces_configured:
  "snd (MuSig2RegisterNonces C sessionID pubNonces w)
     = snd (C w ''MuSig2RegisterNonces'' [VSessionID sessionID, VPubNonces pubNonces]) \<and>
   (fst (MuSig2RegisterNonces C sessionID pubNonces w) = Inr (True, err) \<longleftrightarrow>
    (\<exists>e rest. fst (C w ''MuSig2RegisterNonces'' [VSessionID sessionID, VPubNonces pubNonces])
         = Inr (VBool True # e # rest) \<and> error_of 1 e = Inr err))"
proof -
  let ?r = "fst (C w ''MuSig2RegisterNonces'' [VSessionID sessionID, VPubNonces pubNonces])"
  have "(fst (MuSig2RegisterNonces C sessionID pubNonces w) = Inr (True, err)) =
        (\<exists>e rest. ?r = Inr (VBool True # e # rest) \<and> error_of 1 e = Inr err)"
  proof (cases ?r)
    case (Inl p)
    then show ?thesis by (simp add: MuSig2RegisterNonces_def)
  next
    case (Inr args)
    show ?thesis
    proof (cases args)
      case Nil
      with Inr show ?thesis by (simp add: MuSig2RegisterNonces_def Arguments_Get_def)
    next
      case (Cons v tl)
      note c1 = this
      show ?thesis
      proof (cases tl)
        case Nil
        with Inr c1 show ?thesis
          by (cases v) (simp_all add: MuSig2RegisterNonces_def world_simps)
      next
        case (Cons e rest)
        with Inr c1 show ?thesis
          by (cases v)
             (auto simp: MuSig2RegisterNonces_def world_simps bindP_def split: sum.splits)
      qed
    qed
  qed
  then show ?thesis by (simp add: MuSig2RegisterNonces_def)
qed

text \<open>
  Claim C6 says that two calls of \<^verbatim>\<open>MuSig2Sign\<close> with identical session nonce state and
  identical message yield the same partial signature. The mock has no nonce state and
  answers by expectation. From one state of the mock, for one session ID and one
  message, the calls with \<^verbatim>\<open>withSortedKeys\<close> true and false return two different
  signatures; and with two \<^verbatim>\<open>.Once()\<close> expectations, two successive calls with the very
  same arguments return two different signatures.
\<close>

theorem MuSig2Sign_same_message_counterexample:
  "fst (MuSig2Sign MethodCalled sid msg32 True cleaned_world)
     = Inr (Some (PartialSignature [7]), None) \<and>
   fst (MuSig2Sign MethodCalled sid msg32 False cleaned_world)
     = Inr (Some (PartialSignature [8]), None) \<and>
   fst (MuSig2Sign MethodCalled sid msg32 True once_sign_world)
     = Inr (Some (PartialSignature [7]), None) \<and>
   fst (MuSig2Sign MethodCalled sid msg32 True
          (snd (MuSig2Sign MethodCalled sid msg32 True once_sign_world)))
     = Inr (Some (PartialSignature [8]), None)"
  by (simp add: MuSig2Sign_def cleaned_world_def once_sign_world_def world_simps)

text \<open>
  Claim C6, amended: \<^verbatim>\<open>MuSig2Sign\<close> is determined by what the mock's dispatcher yields
  for the call \<^verbatim>\<open>(sessionID, msg, withSortedKeys)\<close>: two calls for which the dispatcher
  yields the same return values (or the same panic) give the same partial signature and
  the same error.
\<close>

theorem MuSig2Sign_determined_by_dispatch:
  assumes "fst (C w ''MuSig2Sign'' [VSessionID sessionID, VMsg msg, VBool withSortedKeys])
             = fst (C w' ''MuSig2Sign'' [VSessionID sessionID', VMsg msg', VBool withSortedKeys'])"
  shows "fst (MuSig2Sign C sessionID msg withSortedKeys w)
           = fst (MuSig2Sign C sessionID' msg' withSortedKeys' w')"
  using assms by (simp add: MuSig2Sign_def)

theorem MuSig2Sign_determined_by_dispatch_witness:
  "fst (MuSig2Sign MethodCalled sid msg32 True cleaned_world)
     = fst (MuSig2Sign MethodCalled sid msg32 True
              (snd (MuSig2Sign MethodCalled sid msg32 True cleaned_world))) \<and>
   fst (MuSig2Sign MethodCalled sid msg32 True cleaned_world)
     = Inr (Some (PartialSignature [7]), None)"
proof -
  have "fst (MethodCalled cleaned_world ''MuSig2Sign'' [VSessionID sid, VMsg msg32, VBool True])
          = fst (MethodCalled (snd (MuSig2Sign MethodCalled sid msg32 True cleaned_world))
                   ''MuSig2Sign'' [VSessionID sid, VMsg msg32, VBool True])"
    by (simp add: MuSig2Sign_def cleaned_world_def world_simps)
  from MuSig2Sign_determined_by_dispatch
         [of MethodCalled cleaned_world sid msg32 True
             "snd (MuSig2Sign MethodCalled sid msg32 True cleaned_world)" sid msg32 True,
          OF this]
  have "fst (MuSig2Sign MethodCalled sid msg32 True cleaned_world)
     = fst (MuSig2Sign MethodCalled sid msg32 True
              (snd (MuSig2Sign MethodCalled sid msg32 True cleaned_world)))" .
  moreover have "fst (MuSig2Sign MethodCalled sid msg32 True cleaned_world)
     = Inr (Some (PartialSignature [7]), None)"
    by (simp add: MuSig2Sign_def cleaned_world_def world_simps)
  ultimately show ?thesis by simp
qed

text \<open>
  Claim C9 says that whenever \<^verbatim>\<open>MuSig2CombineSig\<close> returns a nil aggregate signature the
  flag it returns is false. Configured with a nil pointer of type \<^verbatim>\<open>*schnorr.Signature\<close>
  and the boolean true, the test \<^verbatim>\<open>args.Get(0) == nil\<close> is false (the interface value
  has a type), the type assertion yields the nil pointer, and the method returns a nil
  signature together with true.
\<close>

theorem MuSig2CombineSig_typed_nil_counterexample:
  "fst (MuSig2CombineSig MethodCalled sid [] typed_nil_world) = Inr (None, True, None)"
  by (simp add: MuSig2CombineSig_def typed_nil_world_def world_simps)

text \<open>
  Claim C9, amended: whenever the first value the mock is configured to return is the
  nil interface, \<^verbatim>\<open>MuSig2CombineSig\<close> returns a nil aggregate signature with the flag
  false and the configured error; the configured boolean is discarded. A nil signature
  comes with the flag true exactly when the mock is configured with a nil pointer of
  type \<^verbatim>\<open>*schnorr.Signature\<close> and the boolean true.
\<close>

theorem MuSig2CombineSig_nil_path:
  "(fst (C w ''MuSig2CombineSig'' [VSessionID sessionID, VPartialSigs partialSig])
      = Inr (VNil # b # e # rest) \<longrightarrow>
    fst (MuSig2CombineSig C sessionID partialSig w)
      = bindP (error_of 2 e) (\<lambda>err. Inr (None, False, err))) \<and>
   (fst (MuSig2CombineSig C sessionID partialSig w) = Inr (None, True, err) \<longleftrightarrow>
    (\<exists>e' rest'. fst (C w ''MuSig2CombineSig'' [VSessionID sessionID, VPartialSigs partialSig])
         = Inr (VSchnorrSigPtr None # VBool True # e' # rest') \<and> error_of 2 e' = Inr err))"
proof -
  let ?r = "fst (C w ''MuSig2CombineSig'' [VSessionID sessionID, VPartialSigs partialSig])"
  have first: "?r = Inr (VNil # b # e # rest) \<longrightarrow>
      fst (MuSig2CombineSig C sessionID partialSig w)
        = bindP (error_of 2 e) (\<lambda>err. Inr (None, False, err))"
    by (simp add: MuSig2CombineSig_def Arguments_Get_def Arguments_Error_def)
  have second: "(fst (MuSig2CombineSig C sessionID partialSig w) = Inr (None, True, err)) =
      (\<exists>e' rest'. ?r = Inr (VSchnorrSigPtr None # VBool True # e' # rest')
         \<and> error_of 2 e' = Inr err)"
  proof (cases ?r)
    case (Inl p)
    then show ?thesis by (simp add: MuSig2CombineSig_def)
  next
    case (Inr args)
    show ?thesis
    proof (cases args)
      case Nil
      with Inr show ?thesis by (simp add: MuSig2CombineSig_def Arguments_Get_def)
    next
      case (Cons v t1)
      note c1 = this
      show ?thesis
      proof (cases t1)
        case Nil
        with Inr c1 show ?thesis
          by (cases v) (simp_all add: MuSig2CombineSig_def world_simps)
      next
        case (Cons x t2)
        note c2 = this
        show ?thesis
        proof (cases t2)
          case Nil
          with Inr c1 c2 show ?thesis
            by (cases v; cases x) (simp_all add: MuSig2CombineSig_def world_simps)
        next
          case (Cons y t3)
          with Inr c1 c2 show ?thesis
            by (cases v; cases x)
               (auto simp: MuSig2CombineSig_def world_simps bindP_def split: sum.splits)
        qed
      qed
    qed
  qed
  from first second show ?thesis by blast
qed

theorem MuSig2CombineSig_nil_path_witness:
  "fst (MethodCalled combine_nil_world ''MuSig2CombineSig'' [VSessionID sid, VPartialSigs []])
     = Inr [VNil, VBool True, VError (Err ''session not found'')] \<and>
   fst (MuSig2CombineSig MethodCalled sid [] combine_nil_world)
     = Inr (None, False, Some (Err ''session not found''))"
proof -
  have a: "fst (MethodCalled combine_nil_world ''MuSig2CombineSig''
                  [VSessionID sid, VPartialSigs []])
             = Inr (VNil # VBool True # VError (Err ''session not found'') # [])"
    by (simp add: combine_nil_world_def world_simps)
  from MuSig2CombineSig_nil_path
         [of MethodCalled combine_nil_world sid "[]" "VBool True"
             "VError (Err ''session not found'')" "[]" None] a
  have "fst (MuSig2CombineSig MethodCalled sid [] combine_nil_world)
          = bindP (error_of 2 (VError (Err ''session not found'')))
              (\<lambda>err. Inr (None, False, err))"
    by blast
  with a show ?thesis by simp
qed

end
